theory Spec2Isabelle
  imports Main
begin

section \<open>Data model of \<^verbatim>\<open>src/blockchain.js\<close>\<close>

text \<open>
  A block object has the five fields \<^verbatim>\<open>hash\<close>, \<^verbatim>\<open>height\<close>, \<^verbatim>\<open>body\<close>, \<^verbatim>\<open>time\<close> and
  \<^verbatim>\<open>previousBlockHash\<close>. The two hash fields hold a string or \<^verbatim>\<open>null\<close> (\<open>None\<close>).
  \<^verbatim>\<open>time\<close> is the decimal string \<^verbatim>\<open>new Date().getTime().toString().slice(0, -3)\<close>; the
  model keeps the number of seconds that string denotes.
\<close>

record block =
  hash :: "string option"
  height :: int
  body :: string
  time :: int
  previousBlockHash :: "string option"

text \<open>
  The object handed to the \<^verbatim>\<open>Block\<close> constructor: \<^verbatim>\<open>{ data: 'Genesis Block' }\<close> in
  \<^verbatim>\<open>initializeChain\<close>, \<^verbatim>\<open>{ owner: address, star: star }\<close> in \<^verbatim>\<open>submitStar\<close>. The star is
  whatever the caller sent; it is carried as its JSON text.
\<close>

type_synonym star = string

datatype bdata = GenesisData | StarData string star

text \<open>
  The class \<^verbatim>\<open>Blockchain\<close>: \<^verbatim>\<open>this.chain\<close> and \<^verbatim>\<open>this.height\<close>. The second field is named
  \<open>chainHeight\<close> here because \<open>height\<close> is the block's field.
\<close>

record blockchain =
  chain :: "block list"
  chainHeight :: int

text \<open>
  The entries pushed onto \<^verbatim>\<open>errorLog\<close> by \<^verbatim>\<open>validateChain\<close>. Each carries
  \<^verbatim>\<open>blockHeight\<close>; \<open>InvalidHeights\<close> also carries the number printed in its
  \<^verbatim>\<open>critical\<close> message, \<^verbatim>\<open>self.chain[index - 1].height + 1\<close>.
\<close>

datatype finding =
    InvalidHeights int int
  | PreviousHashDiscrepancy int
  | CurrentHashDiscrepancy int

text \<open>
  The values the promises of the class are rejected with:
  \<^verbatim>\<open>'Block height discrepancy!'\<close>, the error list of \<^verbatim>\<open>validateChain\<close>,
  \<^verbatim>\<open>'Error: Timed out or not verified.'\<close> and \<^verbatim>\<open>false\<close>.
\<close>

datatype rejection =
    BlockHeightDiscrepancy
  | ValidationErrors "finding list"
  | TimedOutOrNotVerified
  | NotFound

text \<open>
  A promise is settled by the first call of \<^verbatim>\<open>resolve\<close> or \<^verbatim>\<open>reject\<close>; later calls do
  nothing. \<open>Pending\<close> is a promise that no call ever settles.
\<close>

datatype 'a promise = Resolved 'a | Rejected rejection | Pending

text \<open>A call of \<^verbatim>\<open>resolve\<close> or \<^verbatim>\<open>reject\<close> on a promise: \<open>settle p call\<close>.\<close>

fun settle :: "'a promise \<Rightarrow> 'a promise \<Rightarrow> 'a promise" where
  "settle Pending call = call"
| "settle (Resolved v) call = Resolved v"
| "settle (Rejected e) call = Rejected e"

text \<open>
  What \<^verbatim>\<open>blockchain.js\<close> takes from outside: \<^verbatim>\<open>SHA256(JSON.stringify(block)).toString()\<close>
  of crypto-js, applied to the whole block object; \<^verbatim>\<open>bitcoinMessage.verify(message,
  address, signature)\<close>, which answers \<^verbatim>\<open>true\<close> or \<^verbatim>\<open>false\<close> or, on a signature or an
  address that is malformed, throws (\<open>None\<close>); \<^verbatim>\<open>parseInt\<close>, with \<open>None\<close> for \<^verbatim>\<open>NaN\<close>;
  and the encoding of a block's data into its \<^verbatim>\<open>body\<close>, which belongs to \<^verbatim>\<open>block.js\<close>.
\<close>

record libs =
  SHA256_stringify :: "block \<Rightarrow> string"
  verify :: "string \<Rightarrow> string \<Rightarrow> string \<Rightarrow> bool option"
  parseInt :: "string \<Rightarrow> int option"
  encode :: "bdata \<Rightarrow> string"

section \<open>The class \<^verbatim>\<open>Block\<close>\<close>

text \<open>
  Modelled from the spec: the constructor of \<^verbatim>\<open>BlockClass.Block\<close> (\<^verbatim>\<open>block.js\<close> is
  not among the sources). A candidate block carries the encoded payload; its hash and
  previous hash are absent and its height and time are not yet assigned.
\<close>

definition Block :: "libs \<Rightarrow> bdata \<Rightarrow> block" where
  "Block L d =
     \<lparr>hash = None, height = 0, body = encode L d, time = 0, previousBlockHash = None\<rparr>"

text \<open>
  Modelled from the spec: \<^verbatim>\<open>block.validate()\<close> of \<^verbatim>\<open>block.js\<close>. It recomputes the
  content hash over the block's own fields height, previousHash, timestamp and payload
  and compares it with the stored hash; \<open>True\<close> is a resolved promise, \<open>False\<close> a
  rejected one.
\<close>

definition validate :: "libs \<Rightarrow> block \<Rightarrow> bool" where
  "validate L b = (hash b = Some (SHA256_stringify L (b\<lparr>hash := None\<rparr>)))"

section \<open>The class \<^verbatim>\<open>Blockchain\<close>\<close>

text \<open>
  The loop of \<^verbatim>\<open>validateChain\<close> over \<^verbatim>\<open>self.chain.entries()\<close>. At index 0 a block whose
  height is positive makes \<^verbatim>\<open>self.chain[index - 1].height\<close> a read of \<^verbatim>\<open>undefined\<close>: the
  \<^verbatim>\<open>TypeError\<close> reaches the outer \<^verbatim>\<open>catch\<close>, which calls \<^verbatim>\<open>reject\<close>, a name the executor
  \<^verbatim>\<open>async (resolve) => ...\<close> does not bind, so the promise is never settled.
\<close>

function validateLoop :: "libs \<Rightarrow> block list \<Rightarrow> nat \<Rightarrow> finding list \<Rightarrow> finding list promise" where
  "validateLoop L ch index errorLog =
     (if index < length ch then
        (let block = ch ! index in
         if height block > 0 \<and> index = 0 then Pending
         else
           (let errorLog1 =
                  (if height block > 0 \<and> height block \<noteq> height (ch ! (index - 1)) + 1
                   then errorLog @ [InvalidHeights (height block) (height (ch ! (index - 1)) + 1)]
                   else errorLog);
                errorLog2 =
                  (if height block > 0 \<and> previousBlockHash block \<noteq> hash (ch ! (index - 1))
                   then errorLog1 @ [PreviousHashDiscrepancy (height block)]
                   else errorLog1);
                errorLog3 =
                  (if validate L block then errorLog2
                   else errorLog2 @ [CurrentHashDiscrepancy (height block)])
            in validateLoop L ch (index + 1) errorLog3))
      else Resolved errorLog)"
  by pat_completeness auto
termination
  by (relation "measure (\<lambda>(L, ch, index, errorLog). length ch - index)") auto

declare validateLoop.simps [simp del]

definition validateChain :: "libs \<Rightarrow> blockchain \<Rightarrow> finding list promise \<times> blockchain" where
  "validateChain L self = (validateLoop L (chain self) 0 [], self)"

text \<open>
  \<^verbatim>\<open>_addBlock(block)\<close>. \<open>now\<close> is the clock reading assigned to \<^verbatim>\<open>block.time\<close>. The
  call \<^verbatim>\<open>reject('Block height discrepancy!')\<close> is not followed by a \<^verbatim>\<open>return\<close>: the
  executor goes on, and what it calls later on the settled promise has no effect.
  \<^verbatim>\<open>self.chain[self.height - 1].hash\<close> out of range is a \<^verbatim>\<open>TypeError\<close> that ends the
  executor after \<^verbatim>\<open>++self.height\<close>, with the promise as it is then. When the promise of
  \<^verbatim>\<open>validateChain\<close> is never settled, the \<^verbatim>\<open>await\<close> does not return.
\<close>

definition addBlock :: "libs \<Rightarrow> int \<Rightarrow> block \<Rightarrow> blockchain \<Rightarrow> block promise \<times> blockchain" where
  "addBlock L now block self =
     (let promise0 =
            (if int (length (chain self)) - chainHeight self \<noteq> 1
             then settle Pending (Rejected BlockHeightDiscrepancy) else Pending);
          self1 = self\<lparr>chainHeight := chainHeight self + 1\<rparr>;
          block1 = block\<lparr>height := chainHeight self1\<rparr>
      in if chainHeight self1 > 0 \<and> \<not> nat (chainHeight self1 - 1) < length (chain self) then
           (promise0, self1)
         else
           (let block2 =
                  (if chainHeight self1 > 0
                   then block1\<lparr>previousBlockHash := hash (chain self ! nat (chainHeight self1 - 1))\<rparr>
                   else block1);
                block3 = block2\<lparr>time := now\<rparr>;
                block4 = block3\<lparr>hash := Some (SHA256_stringify L block3)\<rparr>;
                self2 = self1\<lparr>chain := chain self @ [block4]\<rparr>
            in (case fst (validateChain L self2) of
                  Resolved areErrors \<Rightarrow>
                    settle promise0
                      (if length areErrors > 0 then Rejected (ValidationErrors areErrors)
                       else Resolved block4)
                | Rejected ValidationError \<Rightarrow> settle promise0 (Rejected ValidationError)
                | Pending \<Rightarrow> promise0,
                self2)))"

definition initializeChain :: "libs \<Rightarrow> int \<Rightarrow> blockchain \<Rightarrow> blockchain" where
  "initializeChain L now self =
     (if chainHeight self = - 1 then snd (addBlock L now (Block L GenesisData) self) else self)"

text \<open>The constructor: \<^verbatim>\<open>new Blockchain()\<close> at clock reading \<open>now\<close>.\<close>

definition newBlockchain :: "libs \<Rightarrow> int \<Rightarrow> blockchain" where
  "newBlockchain L now = initializeChain L now \<lparr>chain = [], chainHeight = - 1\<rparr>"

definition getChainHeight :: "blockchain \<Rightarrow> int promise \<times> blockchain" where
  "getChainHeight self = (Resolved (chainHeight self), self)"

text \<open>\<^verbatim>\<open>message.split(':')\<close>: the pieces between the colons, never an empty array.\<close>

fun split_colon :: "string \<Rightarrow> string list" where
  "split_colon [] = [[]]"
| "split_colon (c # cs) =
     (if c = CHR '':'' then [] # split_colon cs
      else (case split_colon cs of [] \<Rightarrow> [[c]] | w # ws \<Rightarrow> (c # w) # ws))"

text \<open>
  \<^verbatim>\<open>parseInt(message.split(':')[1])\<close>; without a second piece the argument is
  \<^verbatim>\<open>undefined\<close> and the result \<^verbatim>\<open>NaN\<close>.
\<close>

definition messageTime :: "libs \<Rightarrow> string \<Rightarrow> int option" where
  "messageTime L message =
     (case split_colon message of _ # t # _ \<Rightarrow> parseInt L t | _ \<Rightarrow> None)"

text \<open>
  \<^verbatim>\<open>submitStar(address, message, signature, star)\<close>. \<open>timeNow\<close> is the clock reading of
  the timelock check, \<open>now\<close> the later one of \<^verbatim>\<open>_addBlock\<close>. A comparison with \<^verbatim>\<open>NaN\<close>
  is false, and \<^verbatim>\<open>&&\<close> does not call \<^verbatim>\<open>verify\<close> when the comparison is false. After the
  \<^verbatim>\<open>if\<close> the executor calls \<^verbatim>\<open>reject\<close> once more, on a promise that the branch has
  settled already; when the promise of \<^verbatim>\<open>_addBlock\<close> is never settled, the \<^verbatim>\<open>await\<close> does
  not return and neither call is reached. The call of \<^verbatim>\<open>verify\<close> is in no \<^verbatim>\<open>try\<close>: when
  it throws, the async executor ends there and nothing settles the promise.
\<close>

definition submitStar ::
  "libs \<Rightarrow> int \<Rightarrow> int \<Rightarrow> string \<Rightarrow> string \<Rightarrow> string \<Rightarrow> star \<Rightarrow> blockchain
     \<Rightarrow> block promise \<times> blockchain" where
  "submitStar L timeNow now address message signature star self =
     (if (case messageTime L message of None \<Rightarrow> False | Some t \<Rightarrow> timeNow - t < 300) then
        (case verify L message address signature of
           None \<Rightarrow> (Pending, self)
         | Some verified \<Rightarrow>
             if verified then
               (let newBlock = Block L (StarData address star);
                    (awaited, self') = addBlock L now newBlock self
                in (case awaited of
                      Resolved added \<Rightarrow>
                        settle (settle Pending (Resolved added)) (Rejected TimedOutOrNotVerified)
                    | Rejected errorLog \<Rightarrow>
                        settle (settle Pending (Rejected errorLog)) (Rejected TimedOutOrNotVerified)
                    | Pending \<Rightarrow> Pending,
                    self'))
             else (settle Pending (Rejected TimedOutOrNotVerified), self))
      else (settle Pending (Rejected TimedOutOrNotVerified), self))"

text \<open>
  \<^verbatim>\<open>self.chain.filter(...)[0]\<close>: the first block that passes the test, or \<^verbatim>\<open>undefined\<close>.
  A block object is truthy, so the promise is rejected, with \<^verbatim>\<open>false\<close>, exactly when
  the filtered array is empty.
\<close>

definition getBlockByHash :: "string \<Rightarrow> blockchain \<Rightarrow> block promise \<times> blockchain" where
  "getBlockByHash h self =
     (case filter (\<lambda>b. hash b = Some h) (chain self) of
        [] \<Rightarrow> (Rejected NotFound, self)
      | block # _ \<Rightarrow> (Resolved block, self))"

definition getBlockByHeight :: "int \<Rightarrow> blockchain \<Rightarrow> block promise \<times> blockchain" where
  "getBlockByHeight n self =
     (case filter (\<lambda>block. height block = n) (chain self) of
        [] \<Rightarrow> (Rejected NotFound, self)
      | getBlock # _ \<Rightarrow> (Resolved getBlock, self))"

section \<open>Auxiliary definitions\<close>

text \<open>
  What one round of the loop of \<^verbatim>\<open>validateChain\<close> adds to \<^verbatim>\<open>errorLog\<close> for the block at
  index \<open>i\<close>, when the round does not end in the \<^verbatim>\<open>TypeError\<close>.
\<close>

definition findingsAt :: "libs \<Rightarrow> block list \<Rightarrow> nat \<Rightarrow> finding list" where
  "findingsAt L ch i =
     (if height (ch ! i) > 0 \<and> height (ch ! i) \<noteq> height (ch ! (i - 1)) + 1
      then [InvalidHeights (height (ch ! i)) (height (ch ! (i - 1)) + 1)] else [])
     @ (if height (ch ! i) > 0 \<and> previousBlockHash (ch ! i) \<noteq> hash (ch ! (i - 1))
        then [PreviousHashDiscrepancy (height (ch ! i))] else [])
     @ (if validate L (ch ! i) then [] else [CurrentHashDiscrepancy (height (ch ! i))])"

text \<open>
  The ledgers the running program goes through: the one the constructor leaves, and the
  ones left by a call of \<^verbatim>\<open>_addBlock\<close> that resolves. \<^verbatim>\<open>initializeChain\<close> and \<^verbatim>\<open>submitStar\<close>
  are the only callers of \<^verbatim>\<open>_addBlock\<close>, and both pass a block fresh from the constructor
  of \<^verbatim>\<open>Block\<close>.
\<close>

inductive reachable :: "libs \<Rightarrow> blockchain \<Rightarrow> bool" for L :: libs where
  constructed: "reachable L (newBlockchain L now)"
| appended: "reachable L self \<Longrightarrow> addBlock L now (Block L d) self = (Resolved b, self')
     \<Longrightarrow> reachable L self'"

text \<open>
  The invariant of those ledgers: the cached height is the last index, every block's
  height is its index, every block but the first names the hash of the one before it,
  the first block is the genesis block, and every stored hash is the digest of its
  block.
\<close>

definition consistent :: "libs \<Rightarrow> blockchain \<Rightarrow> bool" where
  "consistent L self \<longleftrightarrow>
     chain self \<noteq> []
     \<and> chainHeight self = int (length (chain self)) - 1
     \<and> (\<forall>i < length (chain self). height (chain self ! i) = int i)
     \<and> (\<forall>i < length (chain self). 0 < i \<longrightarrow>
            previousBlockHash (chain self ! i) = hash (chain self ! (i - 1)))
     \<and> previousBlockHash (chain self ! 0) = None
     \<and> body (chain self ! 0) = encode L GenesisData
     \<and> (\<forall>i < length (chain self). validate L (chain self ! i))"

section \<open>Concrete libraries and ledgers for the examples\<close>

text \<open>
  A stand-in for \<^verbatim>\<open>parseInt\<close> on the strings the examples use: the value of the leading
  run of decimal digits, \<^verbatim>\<open>NaN\<close> when there is none.
\<close>

definition isDigit :: "char \<Rightarrow> bool" where
  "isDigit c \<longleftrightarrow> 48 \<le> (of_char c :: nat) \<and> (of_char c :: nat) \<le> 57"

definition demoParseInt :: "string \<Rightarrow> int option" where
  "demoParseInt s =
     (case takeWhile isDigit s of
        [] \<Rightarrow> None
      | ds \<Rightarrow> Some (foldl (\<lambda>a c. 10 * a + (int (of_char c) - 48)) 0 ds))"

text \<open>
  A stand-in digest that writes out the hash field, the height in unary, the body and
  the previous hash, and a stand-in signature check: a signature that does not start
  with \<^verbatim>\<open>signed:\<close> is malformed and makes it throw, and of the others it accepts exactly
  \<^verbatim>\<open>signed:<address>:<message>\<close>.
\<close>

definition demoDigest :: "block \<Rightarrow> string" where
  "demoDigest b =
     (case hash b of None \<Rightarrow> ''null'' | Some h \<Rightarrow> h) @ '';''
     @ replicate (nat (height b)) CHR ''|'' @ '';'' @ body b @ '';''
     @ (case previousBlockHash b of None \<Rightarrow> ''null'' | Some p \<Rightarrow> p)"

definition demoEncode :: "bdata \<Rightarrow> string" where
  "demoEncode d =
     (case d of GenesisData \<Rightarrow> ''data=Genesis Block''
      | StarData owner s \<Rightarrow> ''owner='' @ owner @ '',star='' @ s)"

definition demoLibs :: libs where
  "demoLibs =
     \<lparr>SHA256_stringify = demoDigest,
      verify = (\<lambda>message address signature.
        if take 7 signature = ''signed:''
        then Some (signature = ''signed:'' @ address @ '':'' @ message) else None),
      parseInt = demoParseInt,
      encode = demoEncode\<rparr>"

text \<open>The ledger right after construction at clock reading 1000, and its genesis block.\<close>

definition genesisBlock :: block where
  "genesisBlock =
     \<lparr>hash = Some ''null;;data=Genesis Block;null'', height = 0,
      body = ''data=Genesis Block'', time = 1000, previousBlockHash = None\<rparr>"

definition freshLedger :: blockchain where
  "freshLedger = \<lparr>chain = [genesisBlock], chainHeight = 0\<rparr>"

text \<open>
  The block that the submission of a star by \<^verbatim>\<open>addr1\<close> at clock reading 1100 seals on
  that ledger, and the ledger it leaves.
\<close>

definition starBlock :: block where
  "starBlock =
     \<lparr>hash = Some ''null;|;owner=addr1,star={ra:1};null;;data=Genesis Block;null'',
      height = 1, body = ''owner=addr1,star={ra:1}'', time = 1100,
      previousBlockHash = Some ''null;;data=Genesis Block;null''\<rparr>"

definition starLedger :: blockchain where
  "starLedger = \<lparr>chain = [genesisBlock, starBlock], chainHeight = 1\<rparr>"

text \<open>
  Ledgers that only a writer outside the class can produce: one whose second block was
  given another height, previous hash and body after it was sealed; one whose cached
  height lags behind the array; one that holds the genesis block twice.
\<close>

definition brokenLedger :: blockchain where
  "brokenLedger =
     \<lparr>chain = [genesisBlock,
                starBlock\<lparr>height := 3, body := ''owner=addr2,star={ra:1}'',
                          previousBlockHash := Some ''0000''\<rparr>],
      chainHeight = 1\<rparr>"

definition skewedLedger :: blockchain where
  "skewedLedger = \<lparr>chain = [genesisBlock, starBlock], chainHeight = 0\<rparr>"

definition doubledLedger :: blockchain where
  "doubledLedger = \<lparr>chain = [genesisBlock, genesisBlock], chainHeight = 1\<rparr>"

text \<open>And one whose only block is not a genesis block.\<close>

definition headlessLedger :: blockchain where
  "headlessLedger = \<lparr>chain = [starBlock], chainHeight = 0\<rparr>"

section \<open>The validation loop\<close>

text \<open>
  One round of the loop, the loop on an exhausted index, and the loop as a whole: from
  any index but 0 it resolves with the findings of all remaining blocks, in order.
\<close>

lemma validateLoop_step:
  "index < length ch \<Longrightarrow> \<not> (height (ch ! index) > 0 \<and> index = 0) \<Longrightarrow>
   validateLoop L ch index errorLog = validateLoop L ch (Suc index) (errorLog @ findingsAt L ch index)"
  by (subst validateLoop.simps) (auto simp: findingsAt_def Let_def)

lemma validateLoop_done:
  "\<not> index < length ch \<Longrightarrow> validateLoop L ch index errorLog = Resolved errorLog"
  by (subst validateLoop.simps) simp

lemma validateLoop_pending:
  "0 < length ch \<Longrightarrow> height (ch ! 0) > 0 \<Longrightarrow> validateLoop L ch 0 errorLog = Pending"
  by (subst validateLoop.simps) (simp add: Let_def)

lemma validateLoop_from:
  "0 < index \<Longrightarrow> index \<le> length ch \<Longrightarrow>
   validateLoop L ch index errorLog =
     Resolved (errorLog @ concat (map (findingsAt L ch) [index..<length ch]))"
proof (induction "length ch - index" arbitrary: index errorLog)
  case 0
  then show ?case by (simp add: validateLoop_done)
next
  case (Suc n)
  then have lt: "index < length ch" by simp
  have "validateLoop L ch index errorLog =
        validateLoop L ch (Suc index) (errorLog @ findingsAt L ch index)"
    using lt Suc.prems(1) by (simp add: validateLoop_step)
  also have "\<dots> = Resolved ((errorLog @ findingsAt L ch index)
                     @ concat (map (findingsAt L ch) [Suc index..<length ch]))"
    using Suc.hyps(1)[of "Suc index"] Suc.hyps(2) lt by simp
  finally show ?case using lt by (simp add: upt_conv_Cons)
qed

lemma validateLoop_all:
  assumes "ch = [] \<or> height (ch ! 0) \<le> 0"
  shows "validateLoop L ch 0 [] = Resolved (concat (map (findingsAt L ch) [0..<length ch]))"
proof (cases "ch = []")
  case True
  then show ?thesis by (simp add: validateLoop_done)
next
  case False
  then have len: "0 < length ch" by simp
  from assms False have h: "\<not> (height (ch ! 0) > 0 \<and> (0::nat) = 0)" by simp
  have upt: "[0..<length ch] = 0 # [Suc 0..<length ch]"
    using len by (rule upt_conv_Cons)
  have "validateLoop L ch 0 [] = validateLoop L ch (Suc 0) ([] @ findingsAt L ch 0)"
    using len h by (rule validateLoop_step)
  also have "\<dots> = Resolved (([] @ findingsAt L ch 0) @ concat (map (findingsAt L ch) [Suc 0..<length ch]))"
    using len by (intro validateLoop_from) linarith+
  finally show ?thesis by (simp only: upt list.map concat.simps append_Nil)
qed

lemma concat_map_Nil: "(\<And>i. i \<in> set xs \<Longrightarrow> f i = []) \<Longrightarrow> concat (map f xs) = []"
  by (induction xs) auto

lemma consistent_findings:
  assumes "consistent L self" "i < length (chain self)"
  shows "findingsAt L (chain self) i = []"
proof -
  from assms have v: "validate L (chain self ! i)" and h: "height (chain self ! i) = int i"
    by (auto simp: consistent_def)
  show ?thesis
  proof (cases "i = 0")
    case True
    with v h show ?thesis by (simp add: findingsAt_def)
  next
    case False
    then have pos: "0 < i" by simp
    with assms have "previousBlockHash (chain self ! i) = hash (chain self ! (i - 1))"
      and "height (chain self ! (i - 1)) = int (i - 1)"
      by (auto simp: consistent_def)
    with v h pos show ?thesis by (simp add: findingsAt_def of_nat_diff)
  qed
qed

lemma consistent_validateChain:
  assumes "consistent L self"
  shows "validateChain L self = (Resolved [], self)"
proof -
  from assms have "height (chain self ! 0) = 0" and "chain self \<noteq> []"
    by (auto simp: consistent_def)
  then have "validateLoop L (chain self) 0 []
             = Resolved (concat (map (findingsAt L (chain self)) [0..<length (chain self)]))"
    by (intro validateLoop_all) simp
  also have "concat (map (findingsAt L (chain self)) [0..<length (chain self)]) = []"
    using assms by (intro concat_map_Nil consistent_findings) simp_all
  finally show ?thesis by (simp add: validateChain_def)
qed

lemma addBlock_state:
  assumes "int (length (chain self)) - chainHeight self = 1"
  shows "snd (addBlock L now blk self) =
     \<lparr>chain = chain self @
        [\<lparr>hash = Some (SHA256_stringify L
             \<lparr>hash = hash blk, height = chainHeight self + 1, body = body blk, time = now,
              previousBlockHash = (if 0 < chainHeight self + 1 then hash (last (chain self))
                                   else previousBlockHash blk)\<rparr>),
          height = chainHeight self + 1, body = body blk, time = now,
          previousBlockHash = (if 0 < chainHeight self + 1 then hash (last (chain self))
                               else previousBlockHash blk)\<rparr>],
      chainHeight = chainHeight self + 1\<rparr>"
proof -
  have n: "nat (chainHeight self) = length (chain self) - 1"
    using assms by arith
  have idx: "0 < chainHeight self + 1 \<Longrightarrow> nat (chainHeight self) < length (chain self)
             \<and> chain self ! nat (chainHeight self) = last (chain self)"
    using assms n by (cases "chain self = []") (auto simp: last_conv_nth)
  show ?thesis
    using assms idx by (cases blk; cases self) (auto simp: addBlock_def Let_def)
qed

section \<open>The timelock and the signature check\<close>

lemma messageTime_demo: "messageTime demoLibs ''addr1:1000:starRegistry'' = Some 1000"
  by (simp add: messageTime_def demoLibs_def demoParseInt_def isDigit_def)

text \<open>
  Claim C4. A submission whose challenge carries a timestamp 300 or more seconds before
  the clock reading is rejected, with the message \<^verbatim>\<open>'Error: Timed out or not verified.'\<close>
  that the code has for an expired challenge, and the ledger is left as it was. The
  outcome is the same for every signature check \<open>v\<close> put in the place of
  \<^verbatim>\<open>bitcoinMessage.verify\<close>: it does not depend on what the check would answer, as
  \<^verbatim>\<open>&&\<close> never calls it.
\<close>

theorem submitStar_expired:
  "messageTime L message = Some t \<Longrightarrow> 300 \<le> timeNow - t \<Longrightarrow>
   submitStar (L\<lparr>verify := v\<rparr>) timeNow now address message signature star self
     = (Rejected TimedOutOrNotVerified, self)"
  by (auto simp: submitStar_def messageTime_def split: list.splits)

theorem submitStar_expired_witness:
  "messageTime demoLibs ''addr1:1000:starRegistry'' = Some 1000 \<and> (300::int) \<le> 1300 - 1000
   \<and> submitStar (demoLibs\<lparr>verify := (\<lambda>m a s. Some True)\<rparr>) 1300 1300 ''addr1''
        ''addr1:1000:starRegistry'' ''signed:addr1:addr1:1000:starRegistry'' ''{ra:1}'' freshLedger
      = (Rejected TimedOutOrNotVerified, freshLedger)"
proof -
  have t: "messageTime demoLibs ''addr1:1000:starRegistry'' = Some 1000"
    by (rule messageTime_demo)
  have e: "(300::int) \<le> 1300 - 1000" by simp
  show ?thesis using t e submitStar_expired [OF t e] by simp
qed

text \<open>
  Claim C5. A submission whose challenge is less than 300 seconds old and whose
  signature \<^verbatim>\<open>bitcoinMessage.verify\<close> does not accept appends no block: the block sequence
  is the one before the submission, and so is what \<^verbatim>\<open>getChainHeight\<close> resolves with. When
  the check answers \<^verbatim>\<open>false\<close> the promise is rejected with the message
  \<^verbatim>\<open>'Error: Timed out or not verified.'\<close>; when the check throws, the promise is never
  settled, so the submission is not rejected.
\<close>

theorem submitStar_unverified:
  "messageTime L message = Some t \<Longrightarrow> timeNow - t < 300 \<Longrightarrow>
   verify L message address signature \<noteq> Some True \<Longrightarrow>
   chain (snd (submitStar L timeNow now address message signature star self)) = chain self
   \<and> getChainHeight (snd (submitStar L timeNow now address message signature star self))
       = getChainHeight self
   \<and> (verify L message address signature = Some False \<longrightarrow>
        fst (submitStar L timeNow now address message signature star self)
          = Rejected TimedOutOrNotVerified)
   \<and> (verify L message address signature = None \<longrightarrow>
        fst (submitStar L timeNow now address message signature star self) = Pending)"
  by (cases "verify L message address signature") (auto simp: submitStar_def)

theorem submitStar_unverified_witness:
  "messageTime demoLibs ''addr1:1000:starRegistry'' = Some 1000 \<and> (1100::int) - 1000 < 300
   \<and> verify demoLibs ''addr1:1000:starRegistry'' ''addr1'' ''bogus'' = None
   \<and> fst (submitStar demoLibs 1100 1100 ''addr1'' ''addr1:1000:starRegistry'' ''bogus''
             ''{ra:1}'' freshLedger) = Pending
   \<and> chain (snd (submitStar demoLibs 1100 1100 ''addr1'' ''addr1:1000:starRegistry'' ''bogus''
             ''{ra:1}'' freshLedger)) = [genesisBlock]
   \<and> verify demoLibs ''addr1:1000:starRegistry'' ''addr1''
         ''signed:addr2:addr1:1000:starRegistry'' = Some False
   \<and> fst (submitStar demoLibs 1100 1100 ''addr1'' ''addr1:1000:starRegistry''
             ''signed:addr2:addr1:1000:starRegistry'' ''{ra:1}'' freshLedger)
       = Rejected TimedOutOrNotVerified"
proof -
  have t: "messageTime demoLibs ''addr1:1000:starRegistry'' = Some 1000"
    by (rule messageTime_demo)
  have e: "(1100::int) - 1000 < 300" by simp
  have n: "verify demoLibs ''addr1:1000:starRegistry'' ''addr1'' ''bogus'' = None"
    by (simp add: demoLibs_def)
  have f: "verify demoLibs ''addr1:1000:starRegistry'' ''addr1''
             ''signed:addr2:addr1:1000:starRegistry'' = Some False"
    by (simp add: demoLibs_def)
  have n': "verify demoLibs ''addr1:1000:starRegistry'' ''addr1'' ''bogus'' \<noteq> Some True"
    using n by simp
  have f': "verify demoLibs ''addr1:1000:starRegistry'' ''addr1''
              ''signed:addr2:addr1:1000:starRegistry'' \<noteq> Some True"
    using f by simp
  show ?thesis
    using t e n f submitStar_unverified [OF t e n', of 1100 "''{ra:1}''" freshLedger]
      submitStar_unverified [OF t e f', of 1100 "''{ra:1}''" freshLedger]
    by (simp add: freshLedger_def)
qed

section \<open>Appending to a consistent ledger\<close>

text \<open>
  When the height check passes, the promise of \<^verbatim>\<open>_addBlock\<close> is settled by the validation
  of the ledger it has just extended. On a consistent ledger a block fresh from the
  constructor is sealed, pushed and resolved, and the ledger stays consistent.
\<close>

lemma addBlock_outcome:
  assumes "int (length (chain self)) - chainHeight self = 1"
  shows "fst (addBlock L now blk self) =
     (case fst (validateChain L (snd (addBlock L now blk self))) of
        Resolved areErrors \<Rightarrow>
          if areErrors \<noteq> [] then Rejected (ValidationErrors areErrors)
          else Resolved (last (chain (snd (addBlock L now blk self))))
      | Rejected e \<Rightarrow> Rejected e
      | Pending \<Rightarrow> Pending)"
proof -
  have n: "nat (chainHeight self) = length (chain self) - 1"
    using assms by arith
  have idx: "0 < chainHeight self + 1 \<Longrightarrow> nat (chainHeight self) < length (chain self)"
    using assms n by (cases "chain self = []") auto
  show ?thesis
    using assms idx
    by (auto simp: addBlock_def Let_def validateChain_def split: promise.splits)
qed

lemma addBlock_consistent:
  assumes c: "consistent L self"
  shows "\<exists>b. addBlock L now (Block L d) self
               = (Resolved b, \<lparr>chain = chain self @ [b], chainHeight = chainHeight self + 1\<rparr>)
             \<and> body b = encode L d \<and> height b = chainHeight self + 1 \<and> time b = now
             \<and> previousBlockHash b = hash (last (chain self))
             \<and> validate L b
             \<and> consistent L \<lparr>chain = chain self @ [b], chainHeight = chainHeight self + 1\<rparr>"
proof -
  define b where "b =
    \<lparr>hash = Some (SHA256_stringify L
        \<lparr>hash = None, height = chainHeight self + 1, body = encode L d, time = now,
         previousBlockHash = hash (last (chain self))\<rparr>),
     height = chainHeight self + 1, body = encode L d, time = now,
     previousBlockHash = hash (last (chain self))\<rparr>"
  define self' where "self' = \<lparr>chain = chain self @ [b], chainHeight = chainHeight self + 1\<rparr>"
  from c have ne: "chain self \<noteq> []" and ch: "chainHeight self = int (length (chain self)) - 1"
    by (auto simp: consistent_def)
  then have pos: "0 < chainHeight self + 1" and len: "int (length (chain self)) - chainHeight self = 1"
    by auto
  have st: "snd (addBlock L now (Block L d) self) = self'"
    using addBlock_state [OF len, of L now "Block L d"] pos
    by (simp add: Block_def b_def self'_def)
  have vb: "validate L b"
    by (simp add: validate_def b_def)
  have hb: "height b = int (length (chain self))"
    using ch by (simp add: b_def)
  have pb: "previousBlockHash b = hash (chain self ! (length (chain self) - 1))"
    using ne by (simp add: b_def last_conv_nth)
  have c': "consistent L self'"
    unfolding consistent_def
  proof (intro conjI allI impI)
    show "chain self' \<noteq> []" by (simp add: self'_def)
    show "chainHeight self' = int (length (chain self')) - 1"
      using ch by (simp add: self'_def)
    show "height (chain self' ! i) = int i" if "i < length (chain self')" for i
      using that c hb by (auto simp: self'_def nth_append consistent_def less_Suc_eq)
    show "previousBlockHash (chain self' ! i) = hash (chain self' ! (i - 1))"
      if "i < length (chain self')" "0 < i" for i
    proof (cases "i < length (chain self)")
      case True
      with that c show ?thesis by (auto simp: self'_def nth_append consistent_def)
    next
      case False
      with that have "i = length (chain self)" by (simp add: self'_def)
      with pb ne show ?thesis by (simp add: self'_def nth_append)
    qed
    show "previousBlockHash (chain self' ! 0) = None"
      using c ne by (simp add: self'_def nth_append consistent_def)
    show "body (chain self' ! 0) = encode L GenesisData"
      using c ne by (simp add: self'_def nth_append consistent_def)
    show "validate L (chain self' ! i)" if "i < length (chain self')" for i
      using that c vb by (auto simp: self'_def nth_append consistent_def less_Suc_eq)
  qed
  have "fst (addBlock L now (Block L d) self) = Resolved b"
    using addBlock_outcome [OF len, of L now "Block L d"] consistent_validateChain [OF c']
    by (simp add: st) (simp add: self'_def)
  with st have "addBlock L now (Block L d) self = (Resolved b, self')"
    by (simp add: prod_eq_iff)
  moreover have "body b = encode L d" "height b = chainHeight self + 1" "time b = now"
    "previousBlockHash b = hash (last (chain self))"
    by (simp_all add: b_def)
  ultimately show ?thesis using vb c' unfolding self'_def by blast
qed

lemma newBlockchain_eq:
  "newBlockchain L now =
     \<lparr>chain = [\<lparr>hash = Some (SHA256_stringify L
                   \<lparr>hash = None, height = 0, body = encode L GenesisData, time = now,
                    previousBlockHash = None\<rparr>),
                height = 0, body = encode L GenesisData, time = now,
                previousBlockHash = None\<rparr>],
      chainHeight = 0\<rparr>"
  using addBlock_state [of "\<lparr>chain = [], chainHeight = - 1\<rparr>" L now "Block L GenesisData"]
  by (simp add: newBlockchain_def initializeChain_def Block_def)

lemma newBlockchain_consistent: "consistent L (newBlockchain L now)"
  by (simp add: newBlockchain_eq consistent_def validate_def)

lemma reachable_consistent: "reachable L self \<Longrightarrow> consistent L self"
proof (induction rule: reachable.induct)
  case (constructed now)
  show ?case by (rule newBlockchain_consistent)
next
  case (appended self now d b self')
  from addBlock_consistent [OF appended.IH, of now d] appended.hyps(2)
  show ?case by auto
qed

section \<open>The example ledgers\<close>

lemmas demo_defs = demoLibs_def demoDigest_def demoEncode_def demoParseInt_def isDigit_def
  genesisBlock_def freshLedger_def starBlock_def starLedger_def brokenLedger_def skewedLedger_def
  doubledLedger_def headlessLedger_def

lemma newBlockchain_demo: "newBlockchain demoLibs 1000 = freshLedger"
  by (simp add: newBlockchain_eq demo_defs)

lemma addBlock_demo:
  "addBlock demoLibs 1100 (Block demoLibs (StarData ''addr1'' ''{ra:1}'')) freshLedger
     = (Resolved starBlock, starLedger)"
  by (simp add: addBlock_def Block_def validateChain_def Let_def validateLoop.simps validate_def demo_defs)

lemma reachable_demo: "reachable demoLibs starLedger"
  using reachable.appended [OF reachable.constructed addBlock_demo [folded newBlockchain_demo]] .

section \<open>The ledger invariant\<close>

text \<open>
  Claim C7. In every ledger reachable from the constructor by appends that resolve, the
  block sequence is not empty, its first block is the genesis block (the encoded
  genesis payload, no previous hash, height 0), and every later block names the hash of
  the block before it and has that block's height plus one. Right after construction
  \<^verbatim>\<open>getChainHeight\<close> resolves with 0.
\<close>

theorem reachable_chain_linked:
  "reachable L self \<Longrightarrow>
   chain self \<noteq> []
   \<and> body (chain self ! 0) = encode L GenesisData
   \<and> previousBlockHash (chain self ! 0) = None
   \<and> height (chain self ! 0) = 0
   \<and> (\<forall>i. 0 < i \<and> i < length (chain self) \<longrightarrow>
          previousBlockHash (chain self ! i) = hash (chain self ! (i - 1))
          \<and> height (chain self ! i) = height (chain self ! (i - 1)) + 1)
   \<and> getChainHeight (newBlockchain L now) = (Resolved 0, newBlockchain L now)"
proof -
  assume "reachable L self"
  then have c: "consistent L self" by (rule reachable_consistent)
  then have ne: "chain self \<noteq> []" by (simp add: consistent_def)
  from c ne have g: "body (chain self ! 0) = encode L GenesisData"
    "previousBlockHash (chain self ! 0) = None" "height (chain self ! 0) = 0"
    by (simp_all add: consistent_def)
  have link: "previousBlockHash (chain self ! i) = hash (chain self ! (i - 1))
              \<and> height (chain self ! i) = height (chain self ! (i - 1)) + 1"
    if "0 < i \<and> i < length (chain self)" for i
  proof -
    from that c have "height (chain self ! i) = int i" "height (chain self ! (i - 1)) = int (i - 1)"
      "previousBlockHash (chain self ! i) = hash (chain self ! (i - 1))"
      by (auto simp: consistent_def)
    with that show ?thesis by (simp add: of_nat_diff)
  qed
  have "getChainHeight (newBlockchain L now) = (Resolved 0, newBlockchain L now)"
    by (simp add: getChainHeight_def newBlockchain_eq)
  with ne g link show ?thesis by blast
qed

theorem reachable_chain_linked_witness:
  "reachable demoLibs starLedger
   \<and> chain starLedger ! 0 = genesisBlock
   \<and> previousBlockHash genesisBlock = None \<and> height genesisBlock = 0
   \<and> previousBlockHash (chain starLedger ! 1) = hash (chain starLedger ! 0)
   \<and> height (chain starLedger ! 1) = height (chain starLedger ! 0) + 1
   \<and> getChainHeight (newBlockchain demoLibs 1000) = (Resolved 0, freshLedger)"
  using reachable_demo reachable_chain_linked [OF reachable_demo, of 1000]
  by (simp add: newBlockchain_demo) (simp add: demo_defs)

section \<open>Accepted submissions\<close>

text \<open>
  Claim C1. On every ledger reachable from the constructor by appends that resolve, a
  submission whose challenge is less than 300 seconds old and whose signature
  \<^verbatim>\<open>bitcoinMessage.verify\<close> accepts is resolved with the sealed block, whose body is the
  encoding of \<^verbatim>\<open>{ owner: address, star: star }\<close>, and that block is the one appended to
  the sequence. But not every submission produces an outcome: when the challenge is
  that fresh and \<^verbatim>\<open>bitcoinMessage.verify\<close> throws, the promise is neither resolved nor
  rejected, and the ledger is left as it was.
\<close>

theorem submitStar_accepted_or_unsettled:
  assumes "reachable L self" and "messageTime L message = Some t" and "timeNow - t < 300"
  shows "(verify L message address signature = Some True \<longrightarrow>
            (\<exists>b. submitStar L timeNow now address message signature star self
                   = (Resolved b, \<lparr>chain = chain self @ [b], chainHeight = chainHeight self + 1\<rparr>)
                 \<and> body b = encode L (StarData address star)
                 \<and> height b = chainHeight self + 1
                 \<and> previousBlockHash b = hash (last (chain self))
                 \<and> validate L b))
     \<and> (verify L message address signature = None \<longrightarrow>
            (\<nexists>b. fst (submitStar L timeNow now address message signature star self) = Resolved b)
            \<and> (\<nexists>e. fst (submitStar L timeNow now address message signature star self) = Rejected e)
            \<and> snd (submitStar L timeNow now address message signature star self) = self)"
proof -
  from assms(1) have c: "consistent L self" by (rule reachable_consistent)
  from addBlock_consistent [OF c, of now "StarData address star"]
  obtain b where b: "addBlock L now (Block L (StarData address star)) self
      = (Resolved b, \<lparr>chain = chain self @ [b], chainHeight = chainHeight self + 1\<rparr>)"
    "body b = encode L (StarData address star)" "height b = chainHeight self + 1"
    "previousBlockHash b = hash (last (chain self))" "validate L b"
    by blast
  have accepted: "submitStar L timeNow now address message signature star self
      = (Resolved b, \<lparr>chain = chain self @ [b], chainHeight = chainHeight self + 1\<rparr>)"
    if "verify L message address signature = Some True"
    using that assms(2,3) b(1) by (simp add: submitStar_def)
  have unsettled: "submitStar L timeNow now address message signature star self = (Pending, self)"
    if "verify L message address signature = None"
    using that assms(2,3) by (simp add: submitStar_def)
  from accepted b(2-5) unsettled show ?thesis by auto
qed

theorem submitStar_accepted_or_unsettled_witness:
  "reachable demoLibs freshLedger
   \<and> messageTime demoLibs ''addr1:1000:starRegistry'' = Some 1000 \<and> (1100::int) - 1000 < 300
   \<and> verify demoLibs ''addr1:1000:starRegistry'' ''addr1'' ''bogus'' = None
   \<and> submitStar demoLibs 1100 1100 ''addr1'' ''addr1:1000:starRegistry'' ''bogus'' ''{ra:1}''
         freshLedger = (Pending, freshLedger)
   \<and> verify demoLibs ''addr1:1000:starRegistry'' ''addr1''
         ''signed:addr1:addr1:1000:starRegistry'' = Some True
   \<and> submitStar demoLibs 1100 1100 ''addr1'' ''addr1:1000:starRegistry''
         ''signed:addr1:addr1:1000:starRegistry'' ''{ra:1}'' freshLedger
       = (Resolved starBlock, starLedger)
   \<and> body starBlock = encode demoLibs (StarData ''addr1'' ''{ra:1}'')"
proof -
  have r: "reachable demoLibs freshLedger"
    using reachable.constructed [of demoLibs 1000] by (simp add: newBlockchain_demo)
  have t: "messageTime demoLibs ''addr1:1000:starRegistry'' = Some 1000"
    by (rule messageTime_demo)
  have e: "(1100::int) - 1000 < 300" by simp
  have n: "verify demoLibs ''addr1:1000:starRegistry'' ''addr1'' ''bogus'' = None"
    by (simp add: demoLibs_def)
  have v: "verify demoLibs ''addr1:1000:starRegistry'' ''addr1''
             ''signed:addr1:addr1:1000:starRegistry'' = Some True"
    by (simp add: demoLibs_def)
  have s: "submitStar demoLibs 1100 1100 ''addr1'' ''addr1:1000:starRegistry''
         ''signed:addr1:addr1:1000:starRegistry'' ''{ra:1}'' freshLedger
       = (Resolved starBlock, starLedger)"
    using t v addBlock_demo by (simp add: submitStar_def)
  from submitStar_accepted_or_unsettled [OF r t e, of "''addr1''"
      "''signed:addr1:addr1:1000:starRegistry''" 1100 "''{ra:1}''"] v s
  have body: "body starBlock = encode demoLibs (StarData ''addr1'' ''{ra:1}'')"
    by auto
  from submitStar_accepted_or_unsettled [OF r t e, of "''addr1''" "''bogus''" 1100 "''{ra:1}''"] n
  have "submitStar demoLibs 1100 1100 ''addr1'' ''addr1:1000:starRegistry'' ''bogus'' ''{ra:1}''
         freshLedger = (Pending, freshLedger)"
    by (cases "fst (submitStar demoLibs 1100 1100 ''addr1'' ''addr1:1000:starRegistry'' ''bogus''
         ''{ra:1}'' freshLedger)") (auto simp: prod_eq_iff)
  with r t e n v s body show ?thesis by simp
qed

section \<open>Sealing\<close>

text \<open>
  Claim C9. The block that \<^verbatim>\<open>_addBlock\<close> pushes for a candidate fresh from the constructor
  stores as its hash the digest of its own fields height, previous hash, time and body,
  taken while the hash field is still empty; its height, body and time are the ones
  assigned at that moment. The hash is stored once: \<^verbatim>\<open>_addBlock\<close> leaves the blocks that
  are already in the sequence as they are, whatever candidate it is given, and
  \<^verbatim>\<open>validateChain\<close>, \<^verbatim>\<open>getBlockByHash\<close>, \<^verbatim>\<open>getBlockByHeight\<close> and \<^verbatim>\<open>getChainHeight\<close> leave
  the whole ledger as it is.
\<close>

theorem addBlock_hash_content:
  "(chain (snd (addBlock L now (Block L d) self)) = chain self @ [b] \<longrightarrow>
      hash b = Some (SHA256_stringify L
                 \<lparr>hash = None, height = height b, body = body b, time = time b,
                  previousBlockHash = previousBlockHash b\<rparr>)
      \<and> height b = chainHeight self + 1 \<and> body b = encode L d \<and> time b = now)
   \<and> take (length (chain self)) (chain (snd (addBlock L now blk self))) = chain self
   \<and> snd (validateChain L self) = self
   \<and> snd (getBlockByHash h self) = self
   \<and> snd (getBlockByHeight n self) = self
   \<and> snd (getChainHeight self) = self"
proof -
  have seal: "hash b = Some (SHA256_stringify L
                 \<lparr>hash = None, height = height b, body = body b, time = time b,
                  previousBlockHash = previousBlockHash b\<rparr>)
      \<and> height b = chainHeight self + 1 \<and> body b = encode L d \<and> time b = now"
    if "chain (snd (addBlock L now (Block L d) self)) = chain self @ [b]"
    using that by (auto simp: addBlock_def Block_def Let_def split: if_splits)
  have keep: "take (length (chain self)) (chain (snd (addBlock L now blk self))) = chain self"
    by (simp add: addBlock_def Let_def)
  have "snd (getBlockByHash h self) = self" "snd (getBlockByHeight n self) = self"
    by (simp_all add: getBlockByHash_def getBlockByHeight_def split: list.splits)
  with seal keep show ?thesis
    by (simp add: validateChain_def getChainHeight_def)
qed

theorem addBlock_hash_content_witness:
  "chain (snd (addBlock demoLibs 1100 (Block demoLibs (StarData ''addr1'' ''{ra:1}'')) freshLedger))
     = chain freshLedger @ [starBlock]
   \<and> hash starBlock = Some (SHA256_stringify demoLibs (starBlock\<lparr>hash := None\<rparr>))
   \<and> height starBlock = 1 \<and> time starBlock = 1100"
proof -
  have a: "chain (snd (addBlock demoLibs 1100 (Block demoLibs (StarData ''addr1'' ''{ra:1}'')) freshLedger))
     = chain freshLedger @ [starBlock]"
    by (simp add: addBlock_demo) (simp add: demo_defs)
  from addBlock_hash_content [of demoLibs 1100 "StarData ''addr1'' ''{ra:1}''" freshLedger starBlock] a
  show ?thesis by (simp add: freshLedger_def) (simp add: starBlock_def)
qed

section \<open>Appends that fail\<close>

text \<open>
  Claim C6. When the height check of an append has passed and the validation of the
  extended ledger resolves with a list of errors that is not empty, the promise of
  \<^verbatim>\<open>_addBlock\<close> is rejected with exactly that list, and the block stays in the sequence:
  the sequence is the old one followed by the new block, and the cached height has
  advanced by one.
\<close>

theorem addBlock_validation_failed:
  assumes "int (length (chain self)) - chainHeight self = 1"
    and "fst (validateChain L (snd (addBlock L now blk self))) = Resolved errs"
    and "errs \<noteq> []"
  shows "fst (addBlock L now blk self) = Rejected (ValidationErrors errs)
     \<and> (\<exists>b. chain (snd (addBlock L now blk self)) = chain self @ [b]
              \<and> body b = body blk \<and> height b = chainHeight self + 1)
     \<and> chainHeight (snd (addBlock L now blk self)) = chainHeight self + 1"
  using addBlock_outcome [OF assms(1), of L now blk] addBlock_state [OF assms(1), of L now blk]
    assms(2,3)
  by simp

theorem addBlock_validation_failed_witness:
  "int (length (chain brokenLedger)) - chainHeight brokenLedger = 1
   \<and> fst (validateChain demoLibs
        (snd (addBlock demoLibs 1200 (Block demoLibs (StarData ''addr2'' ''{ra:2}'')) brokenLedger)))
      = Resolved [InvalidHeights 3 1, PreviousHashDiscrepancy 3, CurrentHashDiscrepancy 3,
                  InvalidHeights 2 4]
   \<and> fst (addBlock demoLibs 1200 (Block demoLibs (StarData ''addr2'' ''{ra:2}'')) brokenLedger)
      = Rejected (ValidationErrors
          [InvalidHeights 3 1, PreviousHashDiscrepancy 3, CurrentHashDiscrepancy 3,
           InvalidHeights 2 4])
   \<and> length (chain (snd (addBlock demoLibs 1200 (Block demoLibs (StarData ''addr2'' ''{ra:2}''))
                brokenLedger))) = 3"
proof -
  have l: "int (length (chain brokenLedger)) - chainHeight brokenLedger = 1"
    by (simp add: brokenLedger_def)
  have v: "fst (validateChain demoLibs
        (snd (addBlock demoLibs 1200 (Block demoLibs (StarData ''addr2'' ''{ra:2}'')) brokenLedger)))
      = Resolved [InvalidHeights 3 1, PreviousHashDiscrepancy 3, CurrentHashDiscrepancy 3,
                  InvalidHeights 2 4]"
    by (simp add: addBlock_def Block_def validateChain_def Let_def validateLoop.simps
        validate_def demo_defs)
  have n: "[InvalidHeights 3 1, PreviousHashDiscrepancy 3, CurrentHashDiscrepancy 3,
            InvalidHeights 2 4] \<noteq> []"
    by simp
  from addBlock_validation_failed [OF l v n] l v show ?thesis
    by (auto simp: brokenLedger_def)
qed

text \<open>
  Claim C2. On a ledger whose block sequence is not one longer than the cached height,
  \<^verbatim>\<open>_addBlock\<close> rejects with \<^verbatim>\<open>'Block height discrepancy!'\<close>, but it does not stop there:
  the cached height is incremented all the same, so the ledger after the failed append
  is never the ledger before it. On the example ledger the new block is pushed as
  well.
\<close>

theorem addBlock_discrepancy:
  "int (length (chain self)) - chainHeight self \<noteq> 1 \<Longrightarrow>
   fst (addBlock L now blk self) = Rejected BlockHeightDiscrepancy
   \<and> chainHeight (snd (addBlock L now blk self)) = chainHeight self + 1
   \<and> snd (addBlock L now blk self) \<noteq> self"
proof -
  assume d: "int (length (chain self)) - chainHeight self \<noteq> 1"
  have h: "chainHeight (snd (addBlock L now blk self)) = chainHeight self + 1"
    by (simp add: addBlock_def Let_def)
  then have "snd (addBlock L now blk self) \<noteq> self" by auto
  moreover from d have "fst (addBlock L now blk self) = Rejected BlockHeightDiscrepancy"
    by (simp add: addBlock_def Let_def split: promise.splits)
  ultimately show ?thesis using h by simp
qed

theorem addBlock_discrepancy_witness:
  "int (length (chain skewedLedger)) - chainHeight skewedLedger \<noteq> 1
   \<and> fst (addBlock demoLibs 1200 (Block demoLibs (StarData ''addr2'' ''{ra:2}'')) skewedLedger)
       = Rejected BlockHeightDiscrepancy
   \<and> chainHeight (snd (addBlock demoLibs 1200 (Block demoLibs (StarData ''addr2'' ''{ra:2}''))
        skewedLedger)) = 1
   \<and> length (chain (snd (addBlock demoLibs 1200 (Block demoLibs (StarData ''addr2'' ''{ra:2}''))
        skewedLedger))) = 3
   \<and> snd (addBlock demoLibs 1200 (Block demoLibs (StarData ''addr2'' ''{ra:2}'')) skewedLedger)
       \<noteq> skewedLedger"
proof -
  have d: "int (length (chain skewedLedger)) - chainHeight skewedLedger \<noteq> 1"
    by (simp add: skewedLedger_def)
  have l: "length (chain (snd (addBlock demoLibs 1200 (Block demoLibs (StarData ''addr2'' ''{ra:2}''))
        skewedLedger))) = 3"
    by (simp add: addBlock_def Let_def skewedLedger_def)
  from addBlock_discrepancy [OF d, of demoLibs 1200 "Block demoLibs (StarData ''addr2'' ''{ra:2}'')"] d l
  show ?thesis by (simp add: skewedLedger_def)
qed

section \<open>Lookups\<close>

lemma filter_head_find:
  "find P xs = (case filter P xs of [] \<Rightarrow> None | x # _ \<Rightarrow> Some x)"
  by (induction xs) auto

lemma getBlockByHash_find:
  "getBlockByHash h self =
     (case find (\<lambda>b. hash b = Some h) (chain self) of
        None \<Rightarrow> Rejected NotFound | Some b \<Rightarrow> Resolved b, self)"
  by (simp add: getBlockByHash_def filter_head_find split: list.splits)

lemma getBlockByHeight_find:
  "getBlockByHeight n self =
     (case find (\<lambda>b. height b = n) (chain self) of
        None \<Rightarrow> Rejected NotFound | Some b \<Rightarrow> Resolved b, self)"
  by (simp add: getBlockByHeight_def filter_head_find split: list.splits)

lemma find_promise_Resolved:
  "((case find P xs of None \<Rightarrow> Rejected NotFound | Some b \<Rightarrow> Resolved b) = Resolved b)
     \<longleftrightarrow> (\<exists>i < length xs. xs ! i = b \<and> P b \<and> (\<forall>j < i. \<not> P (xs ! j)))"
proof -
  have "((case find P xs of None \<Rightarrow> Rejected NotFound | Some b \<Rightarrow> Resolved b) = Resolved b)
        \<longleftrightarrow> find P xs = Some b"
    by (cases "find P xs") auto
  also have "\<dots> \<longleftrightarrow> (\<exists>i < length xs. xs ! i = b \<and> P b \<and> (\<forall>j < i. \<not> P (xs ! j)))"
    unfolding find_Some_iff by auto
  finally show ?thesis .
qed

lemma find_promise_Rejected:
  "((case find P xs of None \<Rightarrow> Rejected NotFound | Some b \<Rightarrow> Resolved b) = Rejected NotFound)
     \<longleftrightarrow> (\<forall>b \<in> set xs. \<not> P b)"
proof -
  have "((case find P xs of None \<Rightarrow> Rejected NotFound | Some b \<Rightarrow> Resolved b) = Rejected NotFound)
        \<longleftrightarrow> find P xs = None"
    by (cases "find P xs") auto
  then show ?thesis by (auto simp: find_None_iff)
qed

text \<open>
  Claim C10. \<^verbatim>\<open>getBlockByHash\<close> resolves with a block exactly when that block is the first
  one in chain order whose stored hash is the argument, and rejects with \<^verbatim>\<open>false\<close> exactly
  when no block of the sequence stores that hash; \<^verbatim>\<open>getBlockByHeight\<close> does the same
  with the stored height. The block is chosen by its own field, not by its position.
  Neither lookup changes the ledger.
\<close>

theorem lookup_first_match:
  "(fst (getBlockByHash h self) = Resolved b \<longleftrightarrow>
      (\<exists>i < length (chain self). chain self ! i = b \<and> hash b = Some h
         \<and> (\<forall>j < i. hash (chain self ! j) \<noteq> Some h)))
   \<and> (fst (getBlockByHash h self) = Rejected NotFound \<longleftrightarrow>
        (\<forall>b \<in> set (chain self). hash b \<noteq> Some h))
   \<and> snd (getBlockByHash h self) = self
   \<and> (fst (getBlockByHeight n self) = Resolved b' \<longleftrightarrow>
        (\<exists>i < length (chain self). chain self ! i = b' \<and> height b' = n
           \<and> (\<forall>j < i. height (chain self ! j) \<noteq> n)))
   \<and> (fst (getBlockByHeight n self) = Rejected NotFound \<longleftrightarrow>
        (\<forall>b \<in> set (chain self). height b \<noteq> n))
   \<and> snd (getBlockByHeight n self) = self"
  by (simp only: getBlockByHash_find getBlockByHeight_find fst_conv snd_conv
      find_promise_Resolved find_promise_Rejected simp_thms)

theorem lookup_first_match_witness:
  "fst (getBlockByHeight 3 brokenLedger) = Resolved (chain brokenLedger ! 1)
   \<and> fst (getBlockByHeight 1 brokenLedger) = Rejected NotFound
   \<and> fst (getBlockByHash ''null;;data=Genesis Block;null'' doubledLedger) = Resolved genesisBlock
   \<and> fst (getBlockByHash ''0000'' doubledLedger) = Rejected NotFound"
proof -
  have a: "\<exists>i < length (chain brokenLedger). chain brokenLedger ! i = chain brokenLedger ! 1
             \<and> height (chain brokenLedger ! 1) = 3
             \<and> (\<forall>j < i. height (chain brokenLedger ! j) \<noteq> 3)"
    by (rule exI [of _ 1]) (simp add: demo_defs)
  have b: "\<forall>b \<in> set (chain brokenLedger). height b \<noteq> 1"
    by (simp add: demo_defs)
  have c: "\<exists>i < length (chain doubledLedger). chain doubledLedger ! i = genesisBlock
             \<and> hash genesisBlock = Some ''null;;data=Genesis Block;null''
             \<and> (\<forall>j < i. hash (chain doubledLedger ! j) \<noteq> Some ''null;;data=Genesis Block;null'')"
    by (rule exI [of _ 0]) (simp add: demo_defs)
  have d: "\<forall>b \<in> set (chain doubledLedger). hash b \<noteq> Some ''0000''"
    by (simp add: demo_defs)
  have e: "fst (getBlockByHeight 3 brokenLedger) = Resolved (chain brokenLedger ! 1)"
    using lookup_first_match [of "''0000''" brokenLedger genesisBlock 3 "chain brokenLedger ! 1"] a
    by blast
  have f: "fst (getBlockByHeight 1 brokenLedger) = Rejected NotFound"
    using lookup_first_match [of "''0000''" brokenLedger genesisBlock 1 genesisBlock] b
    by blast
  have g: "fst (getBlockByHash ''null;;data=Genesis Block;null'' doubledLedger) = Resolved genesisBlock"
    using lookup_first_match [of "''null;;data=Genesis Block;null''" doubledLedger genesisBlock 0
        genesisBlock] c
    by blast
  have "fst (getBlockByHash ''0000'' doubledLedger) = Rejected NotFound"
    using lookup_first_match [of "''0000''" doubledLedger genesisBlock 0 genesisBlock] d
    by blast
  with e f g show ?thesis by simp
qed

section \<open>Validation\<close>

text \<open>
  Claim C8. \<^verbatim>\<open>validateChain\<close> tells the first block from the others by
  \<^verbatim>\<open>block.height > 0\<close>, not by the index, and so it does not report what the claim says.
  In the first sequence the block at index 1 has not the height of the block before it
  plus one, and its previous hash is not that block's hash; its own height is 0, both
  checks are skipped and the list of findings is empty. In the second sequence the
  block at index 0 has a positive height, the check reads \<^verbatim>\<open>self.chain[-1].height\<close>, and
  the promise is never settled: no list of findings is returned at all. Neither run
  changes the ledger.
\<close>

theorem validateChain_guard_by_height:
  "height (chain doubledLedger ! 1) \<noteq> height (chain doubledLedger ! 0) + 1
   \<and> previousBlockHash (chain doubledLedger ! 1) \<noteq> hash (chain doubledLedger ! 0)
   \<and> validateChain demoLibs doubledLedger = (Resolved [], doubledLedger)
   \<and> validateChain demoLibs headlessLedger = (Pending, headlessLedger)"
  by (simp add: validateChain_def validateLoop.simps validate_def demo_defs)

end
